theory Spec2Isabelle
  imports Main "HOL-Library.AList"
begin

section \<open>Data model (models.py)\<close>

text \<open>
  Primary keys and foreign keys are Python integers, timestamps are readings of
  \<^verbatim>\<open>datetime.utcnow()\<close>, passed to every operation as the parameter \<open>now\<close>.
  A table is the list of its rows in insertion order. Columns that no modelled
  operation reads or writes (email, password, avatar, updated_at, ...) are left out.
\<close>

record user =
  u_id :: int
  u_name :: string
  u_is_active :: bool
  u_last_seen :: nat

record chat =
  c_id :: int
  c_user1_id :: int
  c_user2_id :: int

record message =
  m_id :: int
  m_content :: "string option"
  m_is_edited :: bool
  m_is_deleted :: bool
  m_sender_id :: int
  m_chat_id :: int
  m_message_type :: string
  m_reply_to_message_id :: "int option"
  m_status :: string
  m_delivered_at :: "nat option"
  m_seen_at :: "nat option"
  m_created_at :: nat

record attachment =
  a_id :: int
  a_message_id :: int
  a_filename :: string
  a_file_url :: string
  a_file_type :: string
  a_file_size :: int

record message_reaction =
  r_id :: int
  r_message_id :: int
  r_user_id :: int
  r_emoji :: string

record friend_request =
  fr_id :: int
  fr_sender_id :: int
  fr_receiver_id :: int
  fr_status :: string

record friendship =
  f_id :: int
  f_user1_id :: int
  f_user2_id :: int

text \<open>The committed contents of the database.\<close>

record db =
  users :: "user list"
  chats :: "chat list"
  messages :: "message list"
  attachments :: "attachment list"
  reactions :: "message_reaction list"
  friend_requests :: "friend_request list"
  friendships :: "friendship list"

text \<open>
  Exceptions that leave a handler. \<open>HTTPException\<close> carries the status code;
  the others are the Python exceptions of the same name.
\<close>

datatype error =
  HTTPException nat
  | AttributeError
  | KeyError
  | IntegrityError
  | OverflowError
  | ValidationError

text \<open>
  An \<^verbatim>\<open>INTEGER PRIMARY KEY\<close> of SQLite: a new row gets the largest key in the
  table plus one (1 for an empty table).
\<close>

definition next_id :: "int list \<Rightarrow> int" where
  "next_id ids = fold max ids 0 + 1"

text \<open>
  An integer that the SQLite driver can bind to a statement: a signed 64-bit value.
  Binding any other integer raises OverflowError before the statement runs.
\<close>

definition sqlite_int :: "int \<Rightarrow> bool" where
  "sqlite_int n \<longleftrightarrow> - (2 ^ 63) \<le> n \<and> n < 2 ^ 63"

definition out_of_range :: "int option \<Rightarrow> bool" where
  "out_of_range v = (case v of None \<Rightarrow> False | Some n \<Rightarrow> \<not> sqlite_int n)"

text \<open>\<^verbatim>\<open>query.filter(...).first()\<close>: the first row that passes, or None.\<close>

abbreviation first :: "('a \<Rightarrow> bool) \<Rightarrow> 'a list \<Rightarrow> 'a option" where
  "first \<equiv> List.find"

text \<open>
  Writing an attribute of a loaded row and committing: the row that \<open>first\<close>
  returned is replaced, every other row stays.
\<close>

fun update_first :: "('a \<Rightarrow> bool) \<Rightarrow> ('a \<Rightarrow> 'a) \<Rightarrow> 'a list \<Rightarrow> 'a list" where
  "update_first P f [] = []"
| "update_first P f (x # xs) = (if P x then f x # xs else x # update_first P f xs)"


section \<open>Connection manager (websocket\_manager.py)\<close>

text \<open>
  A WebSocket is named by a number. Events are the dictionaries the handlers pass to
  \<^verbatim>\<open>json.dumps\<close>, one constructor per value of their \<open>type\<close> key.
\<close>

type_synonym websocket = nat

record reply_preview =
  rp_id :: int
  rp_content :: "string option"
  rp_sender_id :: int
  rp_created_at :: nat
  rp_message_type :: string
  rp_is_deleted :: bool

record att_payload =
  ap_filename :: "string option"
  ap_file_url :: "string option"
  ap_file_type :: "string option"
  ap_file_size :: "int option"

record message_payload =
  mp_id :: int
  mp_content :: "string option"
  mp_sender_id :: int
  mp_chat_id :: int
  mp_created_at :: nat
  mp_message_type :: string
  mp_reply_to_message_id :: "int option"
  mp_reply_to_message :: "reply_preview option"
  mp_attachments :: "att_payload list"

type_synonym formatted_reaction = "string \<times> nat \<times> int list"

datatype event =
  MessageEvent message_payload
  | MessageEdited int int "string option" int
  | ReactionEvent string int int int string "formatted_reaction list"
  | MessageDeleted int int int
  | UserStatus int bool

text \<open>
  The state the handlers share: the committed database, the manager's dictionary
  \<open>active_connections\<close> (in insertion order, as a Python dict), the sockets whose
  \<^verbatim>\<open>send_text\<close> raises, and the frames that were sent, in order.
\<close>

record world =
  database :: db
  active_connections :: "(int \<times> websocket) list"
  broken :: "websocket set"
  outbox :: "(websocket \<times> event) list"

definition connect :: "websocket \<Rightarrow> int \<Rightarrow> world \<Rightarrow> world" where
  "connect ws user_id w =
     w\<lparr>active_connections := AList.update user_id ws (active_connections w)\<rparr>"

definition is_user_online :: "int \<Rightarrow> world \<Rightarrow> bool" where
  "is_user_online user_id w = (map_of (active_connections w) user_id \<noteq> None)"


definition disconnect :: "int \<Rightarrow> world \<Rightarrow> world" where
  "disconnect user_id w =
     (if is_user_online user_id w
      then w\<lparr>active_connections := AList.delete user_id (active_connections w)\<rparr>
      else w)"

text \<open>\<^verbatim>\<open>websocket.send_text\<close>: None when the socket raises.\<close>

definition send_text :: "websocket \<Rightarrow> event \<Rightarrow> world \<Rightarrow> world option" where
  "send_text ws ev w =
     (if ws \<in> broken w then None else Some (w\<lparr>outbox := outbox w @ [(ws, ev)]\<rparr>))"

definition send_personal_message :: "event \<Rightarrow> websocket \<Rightarrow> world \<Rightarrow> world" where
  "send_personal_message ev ws w =
     (case send_text ws ev w of Some w' \<Rightarrow> w' | None \<Rightarrow> w)"

definition send_to_user :: "int \<Rightarrow> event \<Rightarrow> world \<Rightarrow> world" where
  "send_to_user user_id ev w =
     (case map_of (active_connections w) user_id of
        None \<Rightarrow> w
      | Some ws \<Rightarrow>
          (case send_text ws ev w of
             Some w' \<Rightarrow> w'
           | None \<Rightarrow> disconnect user_id w))"

text \<open>
  The tasks are created for the users that are online when \<open>send_to_users\<close> is
  called and are run one after the other, in the order of the list.
\<close>

definition send_to_users :: "int list \<Rightarrow> event \<Rightarrow> world \<Rightarrow> world" where
  "send_to_users user_ids ev w =
     fold (\<lambda>user_id. send_to_user user_id ev)
       (filter (\<lambda>user_id. is_user_online user_id w) user_ids) w"

definition broadcast :: "event \<Rightarrow> world \<Rightarrow> world" where
  "broadcast ev w =
     fold (\<lambda>(user_id, ws). send_personal_message ev ws) (active_connections w) w"

definition send_user_status_update :: "int \<Rightarrow> bool \<Rightarrow> world \<Rightarrow> world" where
  "send_user_status_update user_id is_online w = broadcast (UserStatus user_id is_online) w"

text \<open>
  \<open>ConnectionManager\<close> defines no attribute \<open>update_message_status\<close>: looking it
  up on the manager raises AttributeError before anything is called.
\<close>

definition update_message_status :: "int \<Rightarrow> string \<Rightarrow> int \<Rightarrow> int \<Rightarrow> world \<Rightarrow> error + world" where
  "update_message_status message_id status chat_id user_id w = Inl AttributeError"


section \<open>REST handlers (main.py)\<close>

text \<open>
  Every handler takes the identity that \<open>get_current_user\<close> resolved from the
  bearer token and returns what it raises or returns, together with the world it
  leaves: what was committed stays committed when a later statement raises.
\<close>

record message_response =
  mr_id :: int
  mr_content :: string
  mr_sender_id :: int
  mr_created_at :: nat
  mr_message_type :: string
  mr_is_edited :: bool
  mr_is_deleted :: bool
  mr_status :: string
  mr_reply_to_message_id :: "int option"
  mr_reply_to_message :: "reply_preview option"
  mr_attachments :: "attachment list"
  mr_reactions :: "formatted_reaction list"

definition get_reply_to_message :: "db \<Rightarrow> int option \<Rightarrow> reply_preview option" where
  "get_reply_to_message d reply_to =
     (case reply_to of
        None \<Rightarrow> None
      | Some rid \<Rightarrow>
          if rid = 0 then None
          else map_option
            (\<lambda>reply_msg. \<lparr>rp_id = m_id reply_msg, rp_content = m_content reply_msg,
               rp_sender_id = m_sender_id reply_msg, rp_created_at = m_created_at reply_msg,
               rp_message_type = m_message_type reply_msg,
               rp_is_deleted = m_is_deleted reply_msg\<rparr>)
            (first (\<lambda>m. m_id m = rid) (messages d)))"

text \<open>
  Grouping the reactions of a message by emoji: a dict from emoji to the list of
  user ids, then one entry (emoji, count, users) per key.
\<close>

definition reaction_groups :: "message_reaction list \<Rightarrow> (string \<times> int list) list" where
  "reaction_groups rs =
     fold (\<lambda>r g. AList.update (r_emoji r)
                    ((case map_of g (r_emoji r) of None \<Rightarrow> [] | Some user_ids \<Rightarrow> user_ids)
                       @ [r_user_id r]) g)
       rs []"

definition formatted_reactions :: "message_reaction list \<Rightarrow> formatted_reaction list" where
  "formatted_reactions rs =
     map (\<lambda>(emoji, user_ids). (emoji, length user_ids, user_ids)) (reaction_groups rs)"

definition message_reactions :: "db \<Rightarrow> int \<Rightarrow> message_reaction list" where
  "message_reactions d message_id = filter (\<lambda>r. r_message_id r = message_id) (reactions d)"

subsection \<open>GET /api/chats/\{chat\_id\}/messages\<close>

definition needs_seen :: "int \<Rightarrow> int \<Rightarrow> message \<Rightarrow> bool" where
  "needs_seen chat_id current_user m \<longleftrightarrow>
     m_chat_id m = chat_id \<and> m_sender_id m \<noteq> current_user \<and> m_status m \<noteq> ''seen''"

definition mark_seen :: "nat \<Rightarrow> int \<Rightarrow> int \<Rightarrow> message \<Rightarrow> message" where
  "mark_seen now chat_id current_user m =
     (if needs_seen chat_id current_user m
      then m\<lparr>m_status := ''seen'', m_seen_at := Some now\<rparr> else m)"

fun notify_seen :: "message list \<Rightarrow> world \<Rightarrow> error + world" where
  "notify_seen [] w = Inr w"
| "notify_seen (m # ms) w =
     (case update_message_status (m_id m) ''seen'' (m_chat_id m) (m_sender_id m) w of
        Inl e \<Rightarrow> Inl e
      | Inr w' \<Rightarrow> notify_seen ms w')"

text \<open>\<open>MessageResponse.content\<close> is a required \<open>str\<close>: a null content fails validation.\<close>

fun message_responses :: "db \<Rightarrow> message list \<Rightarrow> error + message_response list" where
  "message_responses d [] = Inr []"
| "message_responses d (m # ms) =
     (case m_content m of
        None \<Rightarrow> Inl ValidationError
      | Some c \<Rightarrow>
          (case message_responses d ms of
             Inl e \<Rightarrow> Inl e
           | Inr rest \<Rightarrow>
               Inr (\<lparr>mr_id = m_id m, mr_content = c, mr_sender_id = m_sender_id m,
                     mr_created_at = m_created_at m, mr_message_type = m_message_type m,
                     mr_is_edited = m_is_edited m, mr_is_deleted = m_is_deleted m,
                     mr_status = m_status m,
                     mr_reply_to_message_id = m_reply_to_message_id m,
                     mr_reply_to_message = get_reply_to_message d (m_reply_to_message_id m),
                     mr_attachments = filter (\<lambda>a. a_message_id a = m_id m) (attachments d),
                     mr_reactions = formatted_reactions (message_reactions d (m_id m))\<rparr>
                    # rest)))"

definition get_messages ::
  "nat \<Rightarrow> int \<Rightarrow> int \<Rightarrow> world \<Rightarrow> (error + message_response list) \<times> world" where
  "get_messages now chat_id current_user w =
     (let d = database w in
      case first (\<lambda>c. c_id c = chat_id \<and>
                       (c_user1_id c = current_user \<or> c_user2_id c = current_user)) (chats d) of
        None \<Rightarrow> (Inl (HTTPException 404), w)
      | Some chat \<Rightarrow>
          let msgs = sort_key m_created_at (filter (\<lambda>m. m_chat_id m = chat_id) (messages d));
              seen_messages = filter (needs_seen chat_id current_user) msgs
          in if seen_messages = []
             then (message_responses d msgs, w)
             else
               let d' = d\<lparr>messages := map (mark_seen now chat_id current_user) (messages d)\<rparr>;
                   w1 = w\<lparr>database := d'\<rparr>
               in (case notify_seen (map (mark_seen now chat_id current_user) seen_messages) w1 of
                     Inl e \<Rightarrow> (Inl e, w1)
                   | Inr w2 \<Rightarrow>
                       (message_responses d'
                          (map (mark_seen now chat_id current_user) msgs), w2)))"

subsection \<open>PUT /api/messages/\{message\_id\}\<close>

definition edit_message ::
  "int \<Rightarrow> string option \<Rightarrow> int \<Rightarrow> world \<Rightarrow> (error + message_response) \<times> world" where
  "edit_message message_id content current_user w =
     (let d = database w in
      case first (\<lambda>m. m_id m = message_id) (messages d) of
        None \<Rightarrow> (Inl (HTTPException 404), w)
      | Some message \<Rightarrow>
          if m_sender_id message \<noteq> current_user then (Inl (HTTPException 403), w)
          else
            let w1 = w\<lparr>database := d\<lparr>messages :=
                         update_first (\<lambda>m. m_id m = message_id)
                           (\<lambda>m. m\<lparr>m_content := content, m_is_edited := True\<rparr>) (messages d)\<rparr>\<rparr>
            in (case first (\<lambda>c. c_id c = m_chat_id message) (chats d) of
                  None \<Rightarrow> (Inl AttributeError, w1)
                | Some chat \<Rightarrow>
                    let participants = [c_user1_id chat, c_user2_id chat];
                        w2 = send_to_users participants
                               (MessageEdited message_id (m_chat_id message) content current_user) w1
                    in (case content of
                          None \<Rightarrow> (Inl ValidationError, w2)
                        | Some c \<Rightarrow>
                            (Inr \<lparr>mr_id = m_id message, mr_content = c,
                                  mr_sender_id = m_sender_id message,
                                  mr_created_at = m_created_at message,
                                  mr_message_type = m_message_type message,
                                  mr_is_edited = True, mr_is_deleted = m_is_deleted message,
                                  mr_status = ''sent'', mr_reply_to_message_id = None,
                                  mr_reply_to_message = None, mr_attachments = [],
                                  mr_reactions = []\<rparr>, w2))))"

subsection \<open>POST /api/messages/\{message\_id\}/reactions\<close>

definition same_reaction :: "int \<Rightarrow> int \<Rightarrow> string \<Rightarrow> message_reaction \<Rightarrow> bool" where
  "same_reaction message_id user_id emoji r \<longleftrightarrow>
     r_message_id r = message_id \<and> r_user_id r = user_id \<and> r_emoji r = emoji"

definition add_reaction ::
  "int \<Rightarrow> string \<Rightarrow> int \<Rightarrow> world \<Rightarrow> (error + string \<times> formatted_reaction list) \<times> world" where
  "add_reaction message_id emoji current_user w =
     (let d = database w in
      case first (\<lambda>m. m_id m = message_id) (messages d) of
        None \<Rightarrow> (Inl (HTTPException 404), w)
      | Some message \<Rightarrow>
          let existing_reaction = first (same_reaction message_id current_user emoji) (reactions d);
              action = (case existing_reaction of Some r \<Rightarrow> ''removed'' | None \<Rightarrow> ''added'');
              rs = (case existing_reaction of
                      Some r \<Rightarrow> remove1 r (reactions d)
                    | None \<Rightarrow> reactions d @
                        [\<lparr>r_id = next_id (map r_id (reactions d)), r_message_id = message_id,
                          r_user_id = current_user, r_emoji = emoji\<rparr>]);
              d' = d\<lparr>reactions := rs\<rparr>;
              w1 = w\<lparr>database := d'\<rparr>
          in (case first (\<lambda>c. c_id c = m_chat_id message) (chats d) of
                None \<Rightarrow> (Inl AttributeError, w1)
              | Some chat \<Rightarrow>
                  let participants = [c_user1_id chat, c_user2_id chat];
                      formatted = formatted_reactions (message_reactions d' message_id);
                      w2 = send_to_users participants
                             (ReactionEvent action message_id (m_chat_id message)
                                current_user emoji formatted) w1
                  in (Inr (action, formatted), w2)))"

subsection \<open>DELETE /api/messages/\{message\_id\}\<close>

definition delete_message :: "int \<Rightarrow> int \<Rightarrow> world \<Rightarrow> (error + unit) \<times> world" where
  "delete_message message_id current_user w =
     (let d = database w in
      case first (\<lambda>m. m_id m = message_id) (messages d) of
        None \<Rightarrow> (Inl (HTTPException 404), w)
      | Some message \<Rightarrow>
          if m_sender_id message \<noteq> current_user then (Inl (HTTPException 403), w)
          else
            (case first (\<lambda>c. c_id c = m_chat_id message) (chats d) of
               None \<Rightarrow> (Inl AttributeError, w)
             | Some chat \<Rightarrow>
                 let participants = [c_user1_id chat, c_user2_id chat];
                     w1 = w\<lparr>database := d\<lparr>messages :=
                            update_first (\<lambda>m. m_id m = message_id)
                              (\<lambda>m. m\<lparr>m_is_deleted := True,
                                     m_content := Some ''This message was deleted''\<rparr>)
                              (messages d)\<rparr>\<rparr>
                 in (Inr (), send_to_users participants
                               (MessageDeleted message_id (m_chat_id message) current_user) w1)))"

subsection \<open>PUT /api/friend-requests/\{request\_id\}\<close>

text \<open>
  The response embeds the sender and the receiver as \<open>UserResponse\<close>; reading an
  attribute of a user that has no row raises AttributeError.
\<close>

definition update_friend_request ::
  "int \<Rightarrow> string \<Rightarrow> int \<Rightarrow> world \<Rightarrow> (error + friend_request) \<times> world" where
  "update_friend_request request_id status current_user w =
     (let d = database w;
          mine = (\<lambda>r. fr_id r = request_id \<and> fr_receiver_id r = current_user) in
      case first mine (friend_requests d) of
        None \<Rightarrow> (Inl (HTTPException 404), w)
      | Some request \<Rightarrow>
          let request' = request\<lparr>fr_status := status\<rparr>;
              d1 = d\<lparr>friend_requests :=
                     update_first mine (\<lambda>r. r\<lparr>fr_status := status\<rparr>) (friend_requests d)\<rparr>;
              d2 = (if fr_status request' = ''accepted''
                    then d1\<lparr>friendships := friendships d1 @
                           [\<lparr>f_id = next_id (map f_id (friendships d1)),
                             f_user1_id = fr_sender_id request',
                             f_user2_id = fr_receiver_id request'\<rparr>]\<rparr>
                    else d1);
              w' = w\<lparr>database := d2\<rparr>
          in if first (\<lambda>u. u_id u = fr_sender_id request') (users d2) = None
                \<or> first (\<lambda>u. u_id u = fr_receiver_id request') (users d2) = None
             then (Inl AttributeError, w')
             else (Inr request', w'))"


section \<open>WebSocket endpoint (main.py)\<close>




text \<open>
  A key of a decoded JSON object: absent, null, or holding a value. The values are
  taken at the type of the column they feed (a string for a text column, an integer
  for an integer column); JSON values of another type are outside the model.
\<close>

datatype 'a jfield = Absent | Null | Given 'a

definition jfield_value :: "'a jfield \<Rightarrow> 'a option" where
  "jfield_value f = (case f of Given v \<Rightarrow> Some v | _ \<Rightarrow> None)"

text \<open>
  A decoded \<open>message\<close> frame. \<open>content\<close> and \<open>chat_id\<close> are read with a subscript,
  which raises KeyError on a missing key; \<open>message_type\<close> and
  \<open>reply_to_message_id\<close> are read with \<open>get\<close>, so None is the missing key (or,
  for the reply, null); a missing \<open>attachments\<close> is the empty list. The four keys
  of an attachment are read with a subscript.
\<close>

record att_data =
  ad_filename :: "string jfield"
  ad_file_url :: "string jfield"
  ad_file_type :: "string jfield"
  ad_file_size :: "int jfield"

record message_data =
  md_content :: "string jfield"
  md_chat_id :: "int jfield"
  md_message_type :: "string option"
  md_reply_to_message_id :: "int option"
  md_attachments :: "att_data list"

text \<open>
  Building the Message and committing it (\<open>db.add\<close>, \<open>db.commit\<close>,
  \<open>db.refresh\<close>). A missing key raises KeyError; an integer the driver cannot bind
  raises OverflowError; \<open>chat_id\<close> is \<open>nullable=False\<close>, so a null raises
  IntegrityError. In each case no row is stored.
\<close>

definition new_message :: "nat \<Rightarrow> int \<Rightarrow> message_data \<Rightarrow> db \<Rightarrow> error + message" where
  "new_message now user_id md d =
     (if md_content md = Absent \<or> md_chat_id md = Absent then Inl KeyError
      else if \<not> sqlite_int user_id \<or> out_of_range (jfield_value (md_chat_id md))
                \<or> out_of_range (md_reply_to_message_id md)
      then Inl OverflowError
      else
        (case jfield_value (md_chat_id md) of
           None \<Rightarrow> Inl IntegrityError
         | Some chat_id \<Rightarrow>
             Inr \<lparr>m_id = next_id (map m_id (messages d)),
                  m_content = jfield_value (md_content md),
                  m_is_edited = False, m_is_deleted = False, m_sender_id = user_id,
                  m_chat_id = chat_id,
                  m_message_type =
                    (case md_message_type md of None \<Rightarrow> ''text'' | Some t \<Rightarrow> t),
                  m_reply_to_message_id = md_reply_to_message_id md,
                  m_status = ''sent'', m_delivered_at = None, m_seen_at = None,
                  m_created_at = now\<rparr>))"

text \<open>
  The loop over the attachments: a missing key raises KeyError and leaves the loop.
  The values read are kept both in the Attachment added to the session and in the
  dict appended to the payload list.
\<close>

fun read_attachments :: "att_data list \<Rightarrow> error + att_payload list" where
  "read_attachments [] = Inr []"
| "read_attachments (a # rest) =
     (if ad_filename a = Absent \<or> ad_file_url a = Absent \<or> ad_file_type a = Absent
         \<or> ad_file_size a = Absent
      then Inl KeyError
      else
        (case read_attachments rest of
           Inl e \<Rightarrow> Inl e
         | Inr ps \<Rightarrow>
             Inr (\<lparr>ap_filename = jfield_value (ad_filename a),
                   ap_file_url = jfield_value (ad_file_url a),
                   ap_file_type = jfield_value (ad_file_type a),
                   ap_file_size = jfield_value (ad_file_size a)\<rparr> # ps)))"

text \<open>
  The commit after the loop inserts the added rows in order, each under the next key.
  A size the driver cannot bind raises OverflowError; the four columns are
  \<open>nullable=False\<close>, so a null raises IntegrityError. Either way the transaction
  stores nothing.
\<close>

fun insert_attachments :: "int \<Rightarrow> int \<Rightarrow> att_payload list \<Rightarrow> error + attachment list" where
  "insert_attachments message_id k [] = Inr []"
| "insert_attachments message_id k (p # ps) =
     (if out_of_range (ap_file_size p) then Inl OverflowError
      else
        (case (ap_filename p, ap_file_url p, ap_file_type p, ap_file_size p) of
           (Some filename, Some file_url, Some file_type, Some file_size) \<Rightarrow>
             (case insert_attachments message_id (k + 1) ps of
                Inl e \<Rightarrow> Inl e
              | Inr rows \<Rightarrow>
                  Inr (\<lparr>a_id = k, a_message_id = message_id, a_filename = filename,
                        a_file_url = file_url, a_file_type = file_type,
                        a_file_size = file_size\<rparr> # rows))
         | _ \<Rightarrow> Inl IntegrityError))"

definition save_attachments ::
  "int \<Rightarrow> att_data list \<Rightarrow> db \<Rightarrow> error + db \<times> att_payload list" where
  "save_attachments message_id atts d =
     (if atts = [] then Inr (d, [])
      else
        (case read_attachments atts of
           Inl e \<Rightarrow> Inl e
         | Inr ps \<Rightarrow>
             (case insert_attachments message_id (next_id (map a_id (attachments d))) ps of
                Inl e \<Rightarrow> Inl e
              | Inr rows \<Rightarrow> Inr (d\<lparr>attachments := attachments d @ rows\<rparr>, ps))))"

text \<open>
  The loop that sends the delivery status: \<open>delivered_at\<close> is written on the loaded
  message after each call that returns.
\<close>

fun send_delivery_status ::
  "nat \<Rightarrow> int \<Rightarrow> message \<Rightarrow> int list \<Rightarrow> world \<Rightarrow> error + message \<times> world" where
  "send_delivery_status now user_id message [] w = Inr (message, w)"
| "send_delivery_status now user_id message (participant_id # rest) w =
     (if participant_id \<noteq> user_id
      then
        (case update_message_status (m_id message) ''delivered'' (m_chat_id message)
                participant_id w of
           Inl e \<Rightarrow> Inl e
         | Inr w' \<Rightarrow>
             send_delivery_status now user_id (message\<lparr>m_delivered_at := Some now\<rparr>) rest w')
      else send_delivery_status now user_id message rest w)"

definition websocket_endpoint_message ::
  "nat \<Rightarrow> int \<Rightarrow> message_data \<Rightarrow> world \<Rightarrow> error option \<times> world" where
  "websocket_endpoint_message now user_id md w =
     (let d = database w in
      case new_message now user_id md d of
        Inl e \<Rightarrow> (Some e, w)
      | Inr message \<Rightarrow>
          let d1 = d\<lparr>messages := messages d @ [message]\<rparr>
          in (case save_attachments (m_id message) (md_attachments md) d1 of
                Inl e \<Rightarrow> (Some e, w\<lparr>database := d1\<rparr>)
              | Inr (d2, att_payloads) \<Rightarrow>
                  (case first (\<lambda>c. c_id c = m_chat_id message) (chats d2) of
                     None \<Rightarrow> (Some AttributeError, w\<lparr>database := d2\<rparr>)
                   | Some chat \<Rightarrow>
                       let participants = [c_user1_id chat, c_user2_id chat];
                           response_data = MessageEvent
                             \<lparr>mp_id = m_id message, mp_content = m_content message,
                              mp_sender_id = m_sender_id message, mp_chat_id = m_chat_id message,
                              mp_created_at = m_created_at message,
                              mp_message_type = m_message_type message,
                              mp_reply_to_message_id = m_reply_to_message_id message,
                              mp_reply_to_message =
                                get_reply_to_message d2 (m_reply_to_message_id message),
                              mp_attachments = att_payloads\<rparr>;
                           w1 = send_to_users participants response_data (w\<lparr>database := d2\<rparr>)
                       in (case send_delivery_status now user_id message participants w1 of
                             Inl e \<Rightarrow> (Some e, w1)
                           | Inr (message', w2) \<Rightarrow>
                               (None, w2\<lparr>database := (database w2)\<lparr>messages :=
                                  update_first (\<lambda>m. m_id m = m_id message) (\<lambda>m. message')
                                    (messages (database w2))\<rparr>\<rparr>)))))"


section \<open>Vocabulary of the statements\<close>

text \<open>
  What a fan-out of \<open>ev\<close> puts on the wire for one user: one frame if the user has
  a registered socket whose send works, nothing otherwise.
\<close>

definition delivery :: "world \<Rightarrow> event \<Rightarrow> int \<Rightarrow> (websocket \<times> event) list" where
  "delivery w ev user_id =
     (case map_of (active_connections w) user_id of
        None \<Rightarrow> []
      | Some ws \<Rightarrow> if ws \<in> broken w then [] else [(ws, ev)])"

definition deliveries :: "world \<Rightarrow> event \<Rightarrow> int list \<Rightarrow> (websocket \<times> event) list" where
  "deliveries w ev user_ids = concat (map (delivery w ev) user_ids)"

text \<open>
  Whether a (message, user, emoji) triple is in the table, and whether it is there
  at most once, read off the rows.
\<close>

definition reaction_key :: "message_reaction \<Rightarrow> int \<times> int \<times> string" where
  "reaction_key r = (r_message_id r, r_user_id r, r_emoji r)"

definition reaction_exists :: "db \<Rightarrow> int \<Rightarrow> int \<Rightarrow> string \<Rightarrow> bool" where
  "reaction_exists d message_id user_id emoji \<longleftrightarrow>
     (message_id, user_id, emoji) \<in> set (map reaction_key (reactions d))"

definition stored_once :: "db \<Rightarrow> int \<Rightarrow> int \<Rightarrow> string \<Rightarrow> bool" where
  "stored_once d message_id user_id emoji \<longleftrightarrow>
     count_list (map reaction_key (reactions d)) (message_id, user_id, emoji) \<le> 1"

text \<open>
  The aggregation of a message's reactions as the specification words it: for each
  emoji used on the message, in the order of first use, the number of reactions with
  that emoji and the users who gave them, read off the reactions table.
\<close>

definition emoji_aggregation :: "message_reaction list \<Rightarrow> int \<Rightarrow> formatted_reaction list" where
  "emoji_aggregation table message_id =
     map (\<lambda>e. (e, length (filter (\<lambda>r. r_message_id r = message_id \<and> r_emoji r = e) table),
                  map r_user_id
                    (filter (\<lambda>r. r_message_id r = message_id \<and> r_emoji r = e) table)))
       (rev (remdups (rev (map r_emoji
          (filter (\<lambda>r. r_message_id r = message_id) table)))))"



subsection \<open>A small instance\<close>

text \<open>
  Three users; one chat, between users 1 and 2, holding one message of user 1 at
  status \<open>sent\<close>; a pending friend request from user 1 to user 2. Users 1 and 2 are
  connected, on sockets 10 and 20.
\<close>

definition example_db :: db where
  "example_db =
     \<lparr>users = [\<lparr>u_id = 1, u_name = ''alice'', u_is_active = True, u_last_seen = 0\<rparr>,
               \<lparr>u_id = 2, u_name = ''bob'', u_is_active = True, u_last_seen = 0\<rparr>,
               \<lparr>u_id = 3, u_name = ''carol'', u_is_active = False, u_last_seen = 0\<rparr>],
      chats = [\<lparr>c_id = 1, c_user1_id = 1, c_user2_id = 2\<rparr>],
      messages = [\<lparr>m_id = 1, m_content = Some ''hi'', m_is_edited = False,
                   m_is_deleted = False, m_sender_id = 1, m_chat_id = 1,
                   m_message_type = ''text'', m_reply_to_message_id = None,
                   m_status = ''sent'', m_delivered_at = None, m_seen_at = None,
                   m_created_at = 1\<rparr>],
      attachments = [],
      reactions = [],
      friend_requests = [\<lparr>fr_id = 1, fr_sender_id = 1, fr_receiver_id = 2,
                          fr_status = ''pending''\<rparr>],
      friendships = []\<rparr>"

definition example_world :: world where
  "example_world =
     \<lparr>database = example_db, active_connections = [(1, 10), (2, 20)],
      broken = {}, outbox = []\<rparr>"

definition example_frame :: message_data where
  "example_frame =
     \<lparr>md_content = Given ''hello'', md_chat_id = Given 1, md_message_type = None,
      md_reply_to_message_id = None, md_attachments = []\<rparr>"

text \<open>
  A frame with two attachments, the second without its \<open>filename\<close> key; the same
  frame with the key in place; and a frame whose \<open>chat_id\<close> is null.
\<close>

definition example_frame_attachments :: message_data where
  "example_frame_attachments =
     example_frame\<lparr>md_attachments :=
       [\<lparr>ad_filename = Given ''a.png'', ad_file_url = Given ''/uploads/a.png'',
         ad_file_type = Given ''image/png'', ad_file_size = Given 10\<rparr>,
        \<lparr>ad_filename = Absent, ad_file_url = Given ''/uploads/b.png'',
         ad_file_type = Given ''image/png'', ad_file_size = Given 20\<rparr>]\<rparr>"

definition example_frame_complete :: message_data where
  "example_frame_complete =
     example_frame\<lparr>md_attachments :=
       [\<lparr>ad_filename = Given ''a.png'', ad_file_url = Given ''/uploads/a.png'',
         ad_file_type = Given ''image/png'', ad_file_size = Given 10\<rparr>,
        \<lparr>ad_filename = Given ''b.png'', ad_file_url = Given ''/uploads/b.png'',
         ad_file_type = Given ''image/png'', ad_file_size = Given 20\<rparr>]\<rparr>"

definition example_frame_null_chat :: message_data where
  "example_frame_null_chat = example_frame\<lparr>md_chat_id := Null\<rparr>"

text \<open>
  The small instance with a second message in the chat (of user 2) and three
  reactions: users 1 and 2 reacted to message 1 with different emojis, user 1
  reacted to message 2.
\<close>

definition example_world_reactions :: world where
  "example_world_reactions =
     example_world\<lparr>database := example_db
       \<lparr>messages := messages example_db @
          [\<lparr>m_id = 2, m_content = Some ''hey'', m_is_edited = False,
            m_is_deleted = False, m_sender_id = 2, m_chat_id = 1,
            m_message_type = ''text'', m_reply_to_message_id = None,
            m_status = ''sent'', m_delivered_at = None, m_seen_at = None,
            m_created_at = 2\<rparr>],
        reactions :=
          [\<lparr>r_id = 1, r_message_id = 1, r_user_id = 1, r_emoji = ''+1''\<rparr>,
           \<lparr>r_id = 2, r_message_id = 2, r_user_id = 1, r_emoji = ''+1''\<rparr>,
           \<lparr>r_id = 3, r_message_id = 1, r_user_id = 2, r_emoji = ''ok''\<rparr>]\<rparr>\<rparr>"


section \<open>Fan-out\<close>

lemmas example_defs =
  example_world_def example_db_def example_frame_def example_frame_attachments_def
  example_frame_complete_def example_frame_null_chat_def example_world_reactions_def

lemmas fanout_defs =
  send_to_users_def send_to_user_def send_text_def is_user_online_def disconnect_def

lemma send_to_user_outbox:
  "outbox (send_to_user u ev w) = outbox w @ delivery w ev u"
  by (simp add: send_to_user_def send_text_def disconnect_def delivery_def split: option.splits)

lemma send_to_user_database [simp]: "database (send_to_user u ev w) = database w"
  by (simp add: send_to_user_def send_text_def disconnect_def split: option.splits)

text \<open>
  A send changes the registry only by dropping a user whose socket is broken, and
  that user was owed no frame before either.
\<close>

lemma send_to_user_delivery:
  "delivery (send_to_user u ev w) ev' = delivery w ev'"
proof
  fix v
  show "delivery (send_to_user u ev w) ev' v = delivery w ev' v"
    by (cases "v = u")
       (auto simp: delivery_def send_to_user_def send_text_def disconnect_def is_user_online_def
                   AList.delete_conv' split: option.splits)
qed

lemma fold_send_to_user_outbox:
  "outbox (fold (\<lambda>u. send_to_user u ev) us w) = outbox w @ deliveries w ev us"
proof (induction us arbitrary: w)
  case Nil
  then show ?case by (simp add: deliveries_def)
next
  case (Cons u us)
  have "deliveries (send_to_user u ev w) ev us = deliveries w ev us"
    by (simp add: deliveries_def send_to_user_delivery)
  with Cons show ?case
    by (simp add: send_to_user_outbox deliveries_def)
qed

lemma deliveries_online:
  "deliveries w ev (filter (\<lambda>u. is_user_online u w) us) = deliveries w ev us"
  by (induction us) (auto simp: deliveries_def delivery_def is_user_online_def)

lemma send_to_users_outbox:
  "outbox (send_to_users us ev w) = outbox w @ deliveries w ev us"
  by (simp add: send_to_users_def fold_send_to_user_outbox deliveries_online)

lemma fold_send_to_user_database:
  "database (fold (\<lambda>u. send_to_user u ev) us w) = database w"
  by (induction us arbitrary: w) auto

lemma send_to_users_database [simp]: "database (send_to_users us ev w) = database w"
  by (simp add: send_to_users_def fold_send_to_user_database)


section \<open>Delivery status\<close>

text \<open>
  C1. After a \<open>message\<close> frame is persisted and fanned out, a \<open>delivered\<close>
  transition should be issued for every online participant other than the sender.
  In the small instance user 1 sends a frame to the chat with user 2, who is online.
  The message is stored (key 2) and both sockets get the message frame, but the call
  that should issue the transition raises AttributeError: the handler ends with that
  error, the new message stays at \<open>sent\<close> and \<open>delivered_at\<close> stays empty.
\<close>

theorem message_frame_delivered_never_issued:
  "is_user_online 2 example_world \<and>
   fst (websocket_endpoint_message 7 1 example_frame example_world) = Some AttributeError \<and>
   map m_id (messages (database (snd
     (websocket_endpoint_message 7 1 example_frame example_world)))) = [1, 2] \<and>
   map m_status (messages (database (snd
     (websocket_endpoint_message 7 1 example_frame example_world)))) = [''sent'', ''sent''] \<and>
   map m_delivered_at (messages (database (snd
     (websocket_endpoint_message 7 1 example_frame example_world)))) = [None, None] \<and>
   map fst (outbox (snd
     (websocket_endpoint_message 7 1 example_frame example_world))) = [10, 20]"
  by (simp add: websocket_endpoint_message_def new_message_def sqlite_int_def out_of_range_def
        jfield_value_def example_defs fanout_defs save_attachments_def
        update_message_status_def next_id_def get_reply_to_message_def Let_def)

text \<open>
  C2. Fetching a chat's history should mark the other side's unseen messages
  \<open>seen\<close>, stamp \<open>seen_at\<close>, and then notify the original sender. In the small
  instance user 2 fetches chat 1, which holds one unseen message of user 1, who is
  online. The message is committed as \<open>seen\<close> with \<open>seen_at\<close> stamped, but the
  notification raises AttributeError: the request fails with that error and no frame
  reaches the sender.
\<close>

theorem get_messages_sender_not_notified:
  "is_user_online 1 example_world \<and>
   fst (get_messages 9 1 2 example_world) = Inl AttributeError \<and>
   map m_status (messages (database (snd (get_messages 9 1 2 example_world)))) = [''seen''] \<and>
   map m_seen_at (messages (database (snd (get_messages 9 1 2 example_world)))) = [Some 9] \<and>
   outbox (snd (get_messages 9 1 2 example_world)) = []"
  by (simp add: get_messages_def example_defs is_user_online_def needs_seen_def mark_seen_def
        update_message_status_def Let_def)


text \<open>
  What the fetch does to the stored messages, for a viewer who is a participant of
  the chat: exactly the messages of the chat that the viewer did not send and that are
  not yet \<open>seen\<close> become \<open>seen\<close> with \<open>seen_at\<close> stamped, every other message
  is left as it is; no frame is ever sent, and the request raises as soon as one
  message was marked.
\<close>

lemma mark_seen_of_seen: "m_status m = ''seen'' \<Longrightarrow> mark_seen now chat_id viewer m = m"
  by (simp add: mark_seen_def needs_seen_def)

lemma mark_seen_of_own: "m_sender_id m = viewer \<Longrightarrow> mark_seen now chat_id viewer m = m"
  by (simp add: mark_seen_def needs_seen_def)

lemma mark_seen_of_unseen:
  "needs_seen chat_id viewer m \<Longrightarrow>
   mark_seen now chat_id viewer m = m\<lparr>m_status := ''seen'', m_seen_at := Some now\<rparr>"
  by (simp add: mark_seen_def)

lemma notify_seen_raises: "ms \<noteq> [] \<Longrightarrow> notify_seen ms w = Inl AttributeError"
  by (cases ms) (simp_all add: update_message_status_def)

lemma get_messages_effect:
  assumes "first (\<lambda>c. c_id c = chat_id \<and> (c_user1_id c = viewer \<or> c_user2_id c = viewer))
             (chats (database w)) = Some c"
  shows "messages (database (snd (get_messages now chat_id viewer w))) =
           map (mark_seen now chat_id viewer) (messages (database w))"
    and "outbox (snd (get_messages now chat_id viewer w)) = outbox w"
    and "list_ex (needs_seen chat_id viewer) (messages (database w)) \<Longrightarrow>
           fst (get_messages now chat_id viewer w) = Inl AttributeError"
proof -
  let ?msgs = "sort_key m_created_at (filter (\<lambda>m. m_chat_id m = chat_id) (messages (database w)))"
  have unseen: "filter (needs_seen chat_id viewer) ?msgs = [] \<longleftrightarrow>
      \<not> list_ex (needs_seen chat_id viewer) (messages (database w))"
    by (auto simp: filter_empty_conv list_ex_iff needs_seen_def)
  have same: "map (mark_seen now chat_id viewer) (messages (database w)) = messages (database w)"
    if "\<not> list_ex (needs_seen chat_id viewer) (messages (database w))"
    using that by (intro map_idI) (simp add: mark_seen_def list_ex_iff)
  show "messages (database (snd (get_messages now chat_id viewer w))) =
           map (mark_seen now chat_id viewer) (messages (database w))"
    using assms unseen same
    by (auto simp: get_messages_def Let_def notify_seen_raises simp del: notify_seen.simps)
  show "outbox (snd (get_messages now chat_id viewer w)) = outbox w"
    using assms by (auto simp: get_messages_def Let_def notify_seen_raises)
  show "fst (get_messages now chat_id viewer w) = Inl AttributeError"
    if "list_ex (needs_seen chat_id viewer) (messages (database w))"
    using assms unseen that by (auto simp: get_messages_def Let_def notify_seen_raises)
qed


section \<open>Access checks\<close>

text \<open>
  C8. An operation on a message whose chat the caller is not part of should answer
  NotFound and change nothing. User 3 is not a participant of chat 1: fetching its
  history answers 404, but the reaction toggle of user 3 on message 1 of that chat
  answers \<open>added\<close> and stores the reaction.
\<close>

theorem reaction_by_non_participant_is_stored:
  "fst (get_messages 9 1 3 example_world) = Inl (HTTPException 404) \<and>
   fst (add_reaction 1 ''+1'' 3 example_world) = Inr (''added'', [(''+1'', 1, [3])]) \<and>
   reactions (database (snd (add_reaction 1 ''+1'' 3 example_world))) =
     [\<lparr>r_id = 1, r_message_id = 1, r_user_id = 3, r_emoji = ''+1''\<rparr>]"
  by (simp add: get_messages_def add_reaction_def example_defs fanout_defs same_reaction_def
        next_id_def formatted_reactions_def reaction_groups_def message_reactions_def Let_def)


section \<open>Friend requests\<close>

text \<open>
  C9. A Friendship should appear exactly when a request moves from pending to
  accepted. User 2 accepts request 1: one Friendship for the pair (1, 2) is stored.
  User 2 submits \<open>accepted\<close> for the same, already accepted request again: a second
  Friendship for the same pair is stored.
\<close>

theorem accepting_twice_duplicates_friendship:
  "friendships (database (snd (update_friend_request 1 ''accepted'' 2 example_world))) =
     [\<lparr>f_id = 1, f_user1_id = 1, f_user2_id = 2\<rparr>] \<and>
   map fr_status (friend_requests (database (snd
     (update_friend_request 1 ''accepted'' 2 example_world)))) = [''accepted''] \<and>
   friendships (database (snd (update_friend_request 1 ''accepted'' 2
      (snd (update_friend_request 1 ''accepted'' 2 example_world))))) =
     [\<lparr>f_id = 1, f_user1_id = 1, f_user2_id = 2\<rparr>,
      \<lparr>f_id = 2, f_user1_id = 1, f_user2_id = 2\<rparr>]"
  by (simp add: update_friend_request_def example_defs next_id_def Let_def)


section \<open>Rows and lookups\<close>

lemma first_update_first:
  "(\<And>x. P x \<Longrightarrow> P (f x)) \<Longrightarrow> first P (update_first P f xs) = map_option f (first P xs)"
  by (induction xs) auto

lemma first_update_first_other:
  "(\<And>x. Q (f x) = Q x) \<Longrightarrow> (\<And>x. P x \<Longrightarrow> \<not> Q x) \<Longrightarrow>
   first Q (update_first P f xs) = first Q xs"
  by (induction xs) auto

lemma map_update_first:
  "(\<And>x. P x \<Longrightarrow> g (f x) = g x) \<Longrightarrow> map g (update_first P f xs) = map g xs"
  by (induction xs) auto


lemma delivery_database [simp]: "delivery (w\<lparr>database := d\<rparr>) = delivery w"
  by (rule ext)+ (simp add: delivery_def split: option.splits)

lemma deliveries_database [simp]: "deliveries (w\<lparr>database := d\<rparr>) = deliveries w"
  by (rule ext)+ (simp add: deliveries_def)


section \<open>Connection registry\<close>

text \<open>
  C4, as stated, fails. Unregistering should leave a newer session of the same user
  alone. User 1 is connected on socket 10 and connects again on socket 11, which
  replaces the entry; the disconnect of the older session then removes the entry of
  socket 11: user 1 is no longer online.
\<close>

theorem stale_disconnect_evicts_newer_session:
  "map_of (active_connections example_world) 1 = Some 10 \<and>
   map_of (active_connections (connect 11 1 example_world)) 1 = Some 11 \<and>
   \<not> is_user_online 1 (disconnect 1 (connect 11 1 example_world))"
  by (simp add: example_defs connect_def disconnect_def is_user_online_def)

text \<open>
  C4, amended. \<open>disconnect\<close> takes the user id only: it removes the user's entry
  whenever there is one, whichever session it holds; the entries of the other users,
  the database and the frames sent are unchanged.
\<close>

theorem disconnect_removes_any_session:
  "\<not> is_user_online u (disconnect u w) \<and>
   (\<forall>v. v \<noteq> u \<longrightarrow>
      map_of (active_connections (disconnect u w)) v = map_of (active_connections w) v) \<and>
   database (disconnect u w) = database w \<and> outbox (disconnect u w) = outbox w"
  by (simp add: disconnect_def is_user_online_def AList.delete_conv')

text \<open>
  The amended statement at the instance above: user 1 is gone, user 2 keeps
  socket 20.
\<close>

theorem disconnect_removes_any_session_witness:
  "\<not> is_user_online 1 (disconnect 1 (connect 11 1 example_world)) \<and>
   (2::int) \<noteq> 1 \<and>
   map_of (active_connections (disconnect 1 (connect 11 1 example_world))) 2 = Some 20"
proof -
  have "map_of (active_connections (connect 11 1 example_world)) 2 = Some 20"
    by (simp add: example_defs connect_def)
  with disconnect_removes_any_session [of 1 "connect 11 1 example_world"]
  show ?thesis by simp
qed


section \<open>Presence\<close>





section \<open>Message creation and attachments\<close>
























section \<open>Editing\<close>

lemma edit_message_by_sender:
  assumes msg: "first (\<lambda>m. m_id m = message_id) (messages (database w)) = Some m"
    and sender: "m_sender_id m = current_user"
    and chat: "first (\<lambda>c. c_id c = m_chat_id m) (chats (database w)) = Some c"
  shows "database (snd (edit_message message_id content current_user w)) =
      (database w)\<lparr>messages := update_first (\<lambda>x. m_id x = message_id)
         (\<lambda>x. x\<lparr>m_content := content, m_is_edited := True\<rparr>) (messages (database w))\<rparr>"
    and "outbox (snd (edit_message message_id content current_user w)) =
      outbox w @ deliveries w (MessageEdited message_id (m_chat_id m) content current_user)
        [c_user1_id c, c_user2_id c]"
    and "content = Some body \<Longrightarrow> \<exists>resp. fst (edit_message message_id content current_user w) = Inr resp
           \<and> mr_content resp = body \<and> mr_is_edited resp \<and> mr_is_deleted resp = m_is_deleted m"
  using assms
  by (auto simp: edit_message_def Let_def send_to_users_outbox split: option.splits)

lemma edit_message_stored:
  assumes msg: "first (\<lambda>m. m_id m = message_id) (messages (database w)) = Some m"
    and sender: "m_sender_id m = current_user"
    and chat: "first (\<lambda>c. c_id c = m_chat_id m) (chats (database w)) = Some c"
  shows "first (\<lambda>x. m_id x = message_id)
           (messages (database (snd (edit_message message_id content current_user w)))) =
         Some (m\<lparr>m_content := content, m_is_edited := True\<rparr>)"
    and "other \<noteq> message_id \<Longrightarrow>
         first (\<lambda>x. m_id x = other)
           (messages (database (snd (edit_message message_id content current_user w)))) =
         first (\<lambda>x. m_id x = other) (messages (database w))"
proof -
  show "first (\<lambda>x. m_id x = message_id)
           (messages (database (snd (edit_message message_id content current_user w)))) =
         Some (m\<lparr>m_content := content, m_is_edited := True\<rparr>)"
    by (simp add: edit_message_by_sender(1) [OF assms] first_update_first msg)
  assume "other \<noteq> message_id"
  then have "first (\<lambda>x. m_id x = other) (update_first (\<lambda>x. m_id x = message_id)
         (\<lambda>x. x\<lparr>m_content := content, m_is_edited := True\<rparr>) (messages (database w))) =
       first (\<lambda>x. m_id x = other) (messages (database w))"
    by (intro first_update_first_other) auto
  then show "first (\<lambda>x. m_id x = other)
           (messages (database (snd (edit_message message_id content current_user w)))) =
         first (\<lambda>x. m_id x = other) (messages (database w))"
    by (simp add: edit_message_by_sender(1) [OF assms])
qed

lemma edit_message_by_other:
  assumes "first (\<lambda>m. m_id m = message_id) (messages (database w)) = Some m"
    and "m_sender_id m \<noteq> current_user"
  shows "edit_message message_id content current_user w = (Inl (HTTPException 403), w)"
  using assms by (simp add: edit_message_def)

text \<open>
  C7. For an existing message whose chat exists: an edit by its sender stores the
  new content and the edited flag and leaves every other field of the message
  (status, deleted flag, timestamps) and every other message as they were, and a
  \<open>message_edited\<close> frame goes to each of the two participants that has a working
  registered socket; an edit by anyone else is answered 403 and changes nothing.
\<close>

theorem edit_only_by_sender:
  assumes msg: "first (\<lambda>m. m_id m = message_id) (messages (database w)) = Some m"
    and chat: "first (\<lambda>c. c_id c = m_chat_id m) (chats (database w)) = Some c"
  shows "(m_sender_id m = current_user \<longrightarrow>
      first (\<lambda>x. m_id x = message_id)
          (messages (database (snd (edit_message message_id content current_user w)))) =
        Some (m\<lparr>m_content := content, m_is_edited := True\<rparr>) \<and>
      (\<forall>other. other \<noteq> message_id \<longrightarrow>
         first (\<lambda>x. m_id x = other)
           (messages (database (snd (edit_message message_id content current_user w)))) =
         first (\<lambda>x. m_id x = other) (messages (database w))) \<and>
      outbox (snd (edit_message message_id content current_user w)) =
        outbox w @ deliveries w (MessageEdited message_id (m_chat_id m) content current_user)
          [c_user1_id c, c_user2_id c]) \<and>
    (m_sender_id m \<noteq> current_user \<longrightarrow>
      edit_message message_id content current_user w = (Inl (HTTPException 403), w))"
  using edit_message_stored [OF msg _ chat] edit_message_by_sender(2) [OF msg _ chat]
    edit_message_by_other [OF msg]
  by blast

text \<open>
  In the small instance: user 1 edits the message it sent, both participants get the
  frame; user 2 is refused and the world is as before.
\<close>

theorem edit_only_by_sender_witness:
  "first (\<lambda>x. m_id x = 1)
     (messages (database (snd (edit_message 1 (Some ''new'') 1 example_world)))) =
     Some \<lparr>m_id = 1, m_content = Some ''new'', m_is_edited = True,
            m_is_deleted = False, m_sender_id = 1, m_chat_id = 1,
            m_message_type = ''text'', m_reply_to_message_id = None,
            m_status = ''sent'', m_delivered_at = None, m_seen_at = None,
            m_created_at = 1\<rparr> \<and>
   outbox (snd (edit_message 1 (Some ''new'') 1 example_world)) =
     [(10, MessageEdited 1 1 (Some ''new'') 1), (20, MessageEdited 1 1 (Some ''new'') 1)] \<and>
   edit_message 1 (Some ''new'') 2 example_world = (Inl (HTTPException 403), example_world)"
proof -
  have msg: "first (\<lambda>m. m_id m = 1) (messages (database example_world)) =
      Some \<lparr>m_id = 1, m_content = Some ''hi'', m_is_edited = False,
            m_is_deleted = False, m_sender_id = 1, m_chat_id = 1,
            m_message_type = ''text'', m_reply_to_message_id = None,
            m_status = ''sent'', m_delivered_at = None, m_seen_at = None,
            m_created_at = 1\<rparr>"
    by (simp add: example_defs)
  have chat: "first (\<lambda>c. c_id c = 1) (chats (database example_world)) =
      Some \<lparr>c_id = 1, c_user1_id = 1, c_user2_id = 2\<rparr>"
    by (simp add: example_defs)
  have out: "deliveries example_world ev [1, 2] = [(10, ev), (20, ev)]" for ev
    by (simp add: example_defs deliveries_def delivery_def)
  show ?thesis
    using edit_only_by_sender [where current_user = 1 and content = "Some ''new''", OF msg]
      edit_only_by_sender [where current_user = 2 and content = "Some ''new''", OF msg]
      chat out
    by (simp add: example_world_def)
qed

text \<open>
  C10. For a soft-deleted message whose chat exists, an edit by its sender with a
  text succeeds: the response and the stored message carry the new text and the
  edited flag, and the deleted flag is still set.
\<close>

theorem deleted_message_can_be_edited:
  assumes msg: "first (\<lambda>m. m_id m = message_id) (messages (database w)) = Some m"
    and deleted: "m_is_deleted m"
    and sender: "m_sender_id m = current_user"
    and chat: "first (\<lambda>c. c_id c = m_chat_id m) (chats (database w)) = Some c"
  shows "(\<exists>resp. fst (edit_message message_id (Some body) current_user w) = Inr resp \<and>
            mr_content resp = body \<and> mr_is_edited resp \<and> mr_is_deleted resp) \<and>
    (\<exists>m'. first (\<lambda>x. m_id x = message_id)
            (messages (database (snd (edit_message message_id (Some body) current_user w)))) =
           Some m' \<and>
          m_content m' = Some body \<and> m_is_edited m' \<and> m_is_deleted m')"
  using edit_message_by_sender(3) [OF msg sender chat, of "Some body" body]
    edit_message_stored(1) [OF msg sender chat, of "Some body"] deleted
  by auto

text \<open>
  In the small instance: user 1 deletes its message, which stores the tombstone, and
  then edits it: the stored content is the new text and the message is still
  marked deleted.
\<close>

theorem deleted_message_can_be_edited_witness:
  "map_option m_content (first (\<lambda>x. m_id x = 1)
      (messages (database (snd (delete_message 1 1 example_world))))) =
     Some (Some ''This message was deleted'') \<and>
   map_option m_content (first (\<lambda>x. m_id x = 1)
      (messages (database (snd (edit_message 1 (Some ''new'') 1
         (snd (delete_message 1 1 example_world))))))) = Some (Some ''new'') \<and>
   map_option m_is_deleted (first (\<lambda>x. m_id x = 1)
      (messages (database (snd (edit_message 1 (Some ''new'') 1
         (snd (delete_message 1 1 example_world))))))) = Some True"
proof -
  let ?w = "snd (delete_message 1 1 example_world)"
  let ?m = "\<lparr>m_id = 1, m_content = Some ''This message was deleted'', m_is_edited = False,
            m_is_deleted = True, m_sender_id = 1, m_chat_id = 1,
            m_message_type = ''text'', m_reply_to_message_id = None,
            m_status = ''sent'', m_delivered_at = None, m_seen_at = None,
            m_created_at = 1\<rparr>"
  have db: "database ?w = example_db\<lparr>messages := [?m]\<rparr>"
    by (simp add: delete_message_def example_defs Let_def)
  have msg: "first (\<lambda>m. m_id m = 1) (messages (database ?w)) = Some ?m"
    by (simp add: db)
  have chat: "first (\<lambda>c. c_id c = m_chat_id ?m) (chats (database ?w)) =
      Some \<lparr>c_id = 1, c_user1_id = 1, c_user2_id = 2\<rparr>"
    by (simp add: db example_db_def)
  have "m_is_deleted ?m" "m_sender_id ?m = 1" by simp_all
  from deleted_message_can_be_edited [OF msg this chat, of "''new''"] msg
  show ?thesis by auto
qed

section \<open>Reactions\<close>

lemma first_remove1_once:
  "length (filter P xs) \<le> 1 \<Longrightarrow> first P xs = Some x \<Longrightarrow> first P (remove1 x xs) = None"
proof (induction xs)
  case Nil
  then show ?case by simp
next
  case (Cons y ys)
  show ?case
  proof (cases "P y")
    case True
    with Cons.prems have "x = y" "filter P ys = []" by auto
    then show ?thesis by (simp add: find_None_iff filter_empty_conv)
  next
    case False
    with Cons.prems have "first P ys = Some x" "length (filter P ys) \<le> 1" by auto
    moreover from \<open>first P ys = Some x\<close> have "P x" by (auto simp: find_Some_iff)
    with False have "x \<noteq> y" by auto
    ultimately show ?thesis using False Cons.IH by simp
  qed
qed

lemma filter_remove1_le: "length (filter P (remove1 x xs)) \<le> length (filter P xs)"
  by (induction xs) auto

lemma toggle_exists:
  assumes "length (filter P rs) \<le> 1" and "P x"
  shows "(first P (case first P rs of Some r \<Rightarrow> remove1 r rs | None \<Rightarrow> rs @ [x]) \<noteq> None)
     = (first P rs = None)"
proof (cases "first P rs")
  case None
  then have "first P (rs @ [x]) = Some x"
    using assms(2) by (induction rs) (auto split: if_splits)
  with None show ?thesis by simp
next
  case (Some r)
  with first_remove1_once [OF assms(1) Some] show ?thesis by simp
qed

lemma toggle_once:
  assumes "length (filter Q rs) \<le> 1" and "Q x \<Longrightarrow> first P rs = None \<Longrightarrow> filter Q rs = []"
  shows "length (filter Q (case first P rs of Some r \<Rightarrow> remove1 r rs | None \<Rightarrow> rs @ [x])) \<le> 1"
proof (cases "first P rs")
  case None
  with assms show ?thesis by (cases "Q x") auto
next
  case (Some r)
  have "length (filter Q (remove1 r rs)) \<le> length (filter Q rs)"
    by (rule filter_remove1_le)
  with assms(1) Some show ?thesis by simp
qed

lemma reaction_groups_snoc:
  "reaction_groups (rs @ [r]) =
     AList.update (r_emoji r)
       ((case map_of (reaction_groups rs) (r_emoji r) of None \<Rightarrow> [] | Some us \<Rightarrow> us)
          @ [r_user_id r])
       (reaction_groups rs)"
  by (simp add: reaction_groups_def)

lemma map_of_reaction_groups:
  "map_of (reaction_groups rs) e =
     (if e \<in> r_emoji ` set rs then Some (map r_user_id (filter (\<lambda>r. r_emoji r = e) rs))
      else None)"
proof (induction rs arbitrary: e rule: rev_induct)
  case Nil
  then show ?case by (simp add: reaction_groups_def)
next
  case (snoc r rs)
  show ?case
    by (auto simp: reaction_groups_snoc AList.update_conv' snoc.IH filter_empty_conv)
       (metis imageI)
qed

lemma distinct_reaction_groups: "distinct (map fst (reaction_groups rs))"
  by (induction rs rule: rev_induct)
     (simp_all add: reaction_groups_def AList.distinct_update)

lemma same_reaction_key:
  "same_reaction message_id user_id emoji r \<longleftrightarrow> reaction_key r = (message_id, user_id, emoji)"
  by (auto simp: same_reaction_def reaction_key_def)

lemma reaction_exists_first:
  "reaction_exists d message_id user_id emoji \<longleftrightarrow>
     first (same_reaction message_id user_id emoji) (reactions d) \<noteq> None"
  by (auto simp: reaction_exists_def find_None_iff same_reaction_key intro: rev_image_eqI)

lemma count_list_map: "count_list (map f xs) k = length (filter (\<lambda>x. f x = k) xs)"
  by (induction xs) auto

lemma stored_once_filter:
  "stored_once d message_id user_id emoji \<longleftrightarrow>
     length (filter (same_reaction message_id user_id emoji) (reactions d)) \<le> 1"
proof -
  have "same_reaction message_id user_id emoji = (\<lambda>r. reaction_key r = (message_id, user_id, emoji))"
    by (rule ext) (rule same_reaction_key)
  then show ?thesis by (simp add: stored_once_def count_list_map)
qed

lemma keys_reaction_groups:
  "map fst (reaction_groups rs) = rev (remdups (rev (map r_emoji rs)))"
proof (induction rs rule: rev_induct)
  case Nil
  then show ?case by (simp add: reaction_groups_def)
next
  case (snoc r rs)
  then show ?case
    by (simp add: reaction_groups_snoc AList.update_keys)
qed

lemma alist_by_keys:
  "distinct (map fst xs) \<Longrightarrow> map (\<lambda>k. (k, the (map_of xs k))) (map fst xs) = xs"
proof (induction xs)
  case Nil
  then show ?case by simp
next
  case (Cons x xs)
  obtain k v where x: "x = (k, v)" by (cases x)
  from Cons.prems x have "k \<notin> fst ` set xs" "distinct (map fst xs)" by auto
  then have "map (\<lambda>k'. (k', the (map_of (x # xs) k'))) (map fst xs) =
      map (\<lambda>k'. (k', the (map_of xs k'))) (map fst xs)"
    using x by (intro map_cong) auto
  with Cons.IH \<open>distinct (map fst xs)\<close> x show ?case by simp
qed

lemma reaction_groups_by_emoji:
  "reaction_groups rs =
     map (\<lambda>e. (e, map r_user_id (filter (\<lambda>r. r_emoji r = e) rs)))
       (rev (remdups (rev (map r_emoji rs))))"
proof -
  have "reaction_groups rs =
      map (\<lambda>e. (e, the (map_of (reaction_groups rs) e))) (map fst (reaction_groups rs))"
    using alist_by_keys [OF distinct_reaction_groups, of rs] by simp
  also have "\<dots> = map (\<lambda>e. (e, map r_user_id (filter (\<lambda>r. r_emoji r = e) rs)))
      (map fst (reaction_groups rs))"
    by (intro map_cong refl) (auto simp: map_of_reaction_groups keys_reaction_groups)
  finally show ?thesis by (simp add: keys_reaction_groups)
qed

lemma formatted_reactions_aggregation:
  "formatted_reactions (message_reactions d message_id) =
     emoji_aggregation (reactions d) message_id"
  by (simp add: formatted_reactions_def reaction_groups_by_emoji message_reactions_def
        emoji_aggregation_def comp_def conj_commute)

lemma add_reaction_found:
  assumes msg: "first (\<lambda>m. m_id m = message_id) (messages (database w)) = Some m"
    and chat: "first (\<lambda>c. c_id c = m_chat_id m) (chats (database w)) = Some c"
  shows "database (snd (add_reaction message_id emoji user_id w)) =
      (database w)\<lparr>reactions :=
        (case first (same_reaction message_id user_id emoji) (reactions (database w)) of
           Some r \<Rightarrow> remove1 r (reactions (database w))
         | None \<Rightarrow> reactions (database w) @
             [\<lparr>r_id = next_id (map r_id (reactions (database w))), r_message_id = message_id,
               r_user_id = user_id, r_emoji = emoji\<rparr>])\<rparr>"
    and "fst (add_reaction message_id emoji user_id w) =
      Inr (if reaction_exists (database w) message_id user_id emoji then ''removed'' else ''added'',
           formatted_reactions
             (message_reactions (database (snd (add_reaction message_id emoji user_id w)))
                message_id))"
    and "outbox (snd (add_reaction message_id emoji user_id w)) =
      outbox w @ deliveries w
        (ReactionEvent
           (if reaction_exists (database w) message_id user_id emoji then ''removed'' else ''added'')
           message_id (m_chat_id m) user_id emoji
           (formatted_reactions
              (message_reactions (database (snd (add_reaction message_id emoji user_id w)))
                 message_id)))
        [c_user1_id c, c_user2_id c]"
  using assms
  by (auto simp: add_reaction_def Let_def reaction_exists_first send_to_users_outbox
      split: option.splits)

lemma add_reaction_keeps_stored_once:
  assumes msg: "first (\<lambda>m. m_id m = message_id) (messages (database w)) = Some m"
    and chat: "first (\<lambda>c. c_id c = m_chat_id m) (chats (database w)) = Some c"
    and once: "stored_once (database w) message_id' user_id' emoji'"
  shows "stored_once (database (snd (add_reaction message_id emoji user_id w)))
           message_id' user_id' emoji'"
proof -
  let ?new = "\<lparr>r_id = next_id (map r_id (reactions (database w))), r_message_id = message_id,
                r_user_id = user_id, r_emoji = emoji\<rparr>"
  have "filter (same_reaction message_id' user_id' emoji') (reactions (database w)) = []"
    if "same_reaction message_id' user_id' emoji' ?new"
      and "first (same_reaction message_id user_id emoji) (reactions (database w)) = None"
  proof -
    from that(1) have "same_reaction message_id' user_id' emoji' =
        same_reaction message_id user_id emoji"
      by (auto simp: same_reaction_def fun_eq_iff)
    with that(2) show ?thesis by (simp add: find_None_iff filter_empty_conv)
  qed
  then have "length (filter (same_reaction message_id' user_id' emoji')
      (case first (same_reaction message_id user_id emoji) (reactions (database w)) of
         Some r \<Rightarrow> remove1 r (reactions (database w))
       | None \<Rightarrow> reactions (database w) @ [?new])) \<le> 1"
    using once by (intro toggle_once) (simp_all add: stored_once_filter)
  then show ?thesis
    by (simp add: stored_once_filter add_reaction_found(1) [OF msg chat])
qed

text \<open>
  C6. For an existing message whose chat exists and a (message, user, emoji) triple
  that the table holds at most once. If the triple is in the table, the call removes
  one row, a row of that triple, and answers \<open>removed\<close>; if it is not, the call
  appends one row of that triple and answers \<open>added\<close>; nothing else in the
  database changes. So the existence of the triple is flipped by one call and
  restored by a second call with the same arguments, and the triple is still held at
  most once. The answer and the \<open>reaction\<close> frame carry the aggregation of the
  message's reactions after the toggle (for each emoji used on the message, the
  number of reactions and the users), the frame tagged with the action and the
  acting user, and the frame goes to each of the two participants that has a working
  registered socket.
\<close>

theorem reaction_toggle:
  assumes msg: "first (\<lambda>m. m_id m = message_id) (messages (database w)) = Some m"
    and chat: "first (\<lambda>c. c_id c = m_chat_id m) (chats (database w)) = Some c"
    and once: "stored_once (database w) message_id user_id emoji"
    and first_call: "add_reaction message_id emoji user_id w = (r1, w1)"
    and second_call: "add_reaction message_id emoji user_id w1 = (r2, w2)"
  shows "(reaction_exists (database w) message_id user_id emoji \<longrightarrow>
       (\<exists>r. r \<in> set (reactions (database w)) \<and>
            reaction_key r = (message_id, user_id, emoji) \<and>
            reactions (database w1) = remove1 r (reactions (database w)))) \<and>
    (\<not> reaction_exists (database w) message_id user_id emoji \<longrightarrow>
       reactions (database w1) = reactions (database w) @
         [\<lparr>r_id = next_id (map r_id (reactions (database w))), r_message_id = message_id,
           r_user_id = user_id, r_emoji = emoji\<rparr>]) \<and>
    database w1 = (database w)\<lparr>reactions := reactions (database w1)\<rparr> \<and>
    reaction_exists (database w1) message_id user_id emoji =
      (\<not> reaction_exists (database w) message_id user_id emoji) \<and>
    reaction_exists (database w2) message_id user_id emoji =
      reaction_exists (database w) message_id user_id emoji \<and>
    stored_once (database w1) message_id user_id emoji \<and>
    r1 = Inr (if reaction_exists (database w) message_id user_id emoji
              then ''removed'' else ''added'',
              emoji_aggregation (reactions (database w1)) message_id) \<and>
    outbox w1 = outbox w @ deliveries w
      (ReactionEvent
         (if reaction_exists (database w) message_id user_id emoji then ''removed'' else ''added'')
         message_id (m_chat_id m) user_id emoji
         (emoji_aggregation (reactions (database w1)) message_id))
      [c_user1_id c, c_user2_id c]"
proof -
  let ?new = "\<lambda>d. \<lparr>r_id = next_id (map r_id (reactions d)), r_message_id = message_id,
                r_user_id = user_id, r_emoji = emoji\<rparr>"
  let ?P = "same_reaction message_id user_id emoji"
  have same: "?P (?new d)" for d
    by (simp add: same_reaction_def)
  from first_call have r1: "r1 = fst (add_reaction message_id emoji user_id w)"
    and w1: "w1 = snd (add_reaction message_id emoji user_id w)" by simp_all
  from second_call have w2: "w2 = snd (add_reaction message_id emoji user_id w1)" by simp
  have db1: "database w1 = (database w)\<lparr>reactions :=
        (case first ?P (reactions (database w)) of
           Some r \<Rightarrow> remove1 r (reactions (database w))
         | None \<Rightarrow> reactions (database w) @ [?new (database w)])\<rparr>"
    unfolding w1 by (rule add_reaction_found(1) [OF msg chat])
  have removed: "\<exists>r. r \<in> set (reactions (database w)) \<and>
            reaction_key r = (message_id, user_id, emoji) \<and>
            reactions (database w1) = remove1 r (reactions (database w))"
    if "reaction_exists (database w) message_id user_id emoji"
  proof -
    from that obtain r where r: "first ?P (reactions (database w)) = Some r"
      by (auto simp: reaction_exists_first)
    then have "r \<in> set (reactions (database w))" "?P r"
      by (auto simp: find_Some_iff)
    with r db1 show ?thesis by (auto simp: same_reaction_key)
  qed
  have added: "reactions (database w1) = reactions (database w) @ [?new (database w)]"
    if "\<not> reaction_exists (database w) message_id user_id emoji"
    using that db1 by (simp add: reaction_exists_first)
  have rest: "database w1 = (database w)\<lparr>reactions := reactions (database w1)\<rparr>"
    by (simp add: db1)
  have once1: "stored_once (database w1) message_id user_id emoji"
    unfolding w1 by (rule add_reaction_keeps_stored_once [OF msg chat once])
  have flip1: "reaction_exists (database w1) message_id user_id emoji =
      (\<not> reaction_exists (database w) message_id user_id emoji)"
  proof -
    have "(first ?P
        (case first ?P (reactions (database w)) of
           Some r \<Rightarrow> remove1 r (reactions (database w))
         | None \<Rightarrow> reactions (database w) @ [?new (database w)]) \<noteq> None) =
      (first ?P (reactions (database w)) = None)"
      using once by (intro toggle_exists same) (simp add: stored_once_filter)
    then show ?thesis by (simp add: reaction_exists_first db1)
  qed
  have msg1: "first (\<lambda>m. m_id m = message_id) (messages (database w1)) = Some m"
    and chat1: "first (\<lambda>c. c_id c = m_chat_id m) (chats (database w1)) = Some c"
    using msg chat by (simp_all add: db1)
  have db2: "database w2 = (database w1)\<lparr>reactions :=
        (case first ?P (reactions (database w1)) of
           Some r \<Rightarrow> remove1 r (reactions (database w1))
         | None \<Rightarrow> reactions (database w1) @ [?new (database w1)])\<rparr>"
    unfolding w2 by (rule add_reaction_found(1) [OF msg1 chat1])
  have flip2: "reaction_exists (database w2) message_id user_id emoji =
      (\<not> reaction_exists (database w1) message_id user_id emoji)"
  proof -
    have "(first ?P
        (case first ?P (reactions (database w1)) of
           Some r \<Rightarrow> remove1 r (reactions (database w1))
         | None \<Rightarrow> reactions (database w1) @ [?new (database w1)]) \<noteq> None) =
      (first ?P (reactions (database w1)) = None)"
      using once1 by (intro toggle_exists same) (simp add: stored_once_filter)
    then show ?thesis by (simp add: reaction_exists_first db2)
  qed
  have answer: "r1 = Inr (if reaction_exists (database w) message_id user_id emoji
              then ''removed'' else ''added'',
              emoji_aggregation (reactions (database w1)) message_id)"
    using add_reaction_found(2) [OF msg chat, of emoji user_id]
    by (simp add: r1 w1 [symmetric] formatted_reactions_aggregation)
  have frames: "outbox w1 = outbox w @ deliveries w
      (ReactionEvent
         (if reaction_exists (database w) message_id user_id emoji then ''removed'' else ''added'')
         message_id (m_chat_id m) user_id emoji
         (emoji_aggregation (reactions (database w1)) message_id))
      [c_user1_id c, c_user2_id c]"
    using add_reaction_found(3) [OF msg chat, of emoji user_id]
    by (simp add: w1 [symmetric] formatted_reactions_aggregation)
  from removed added rest flip1 flip2 once1 answer frames show ?thesis
    by blast
qed

text \<open>
  In the instance with three stored reactions user 2 reacts to message 1 with an
  emoji that user 1 already used on it: the row is appended under key 4, the
  aggregation counts both users for that emoji and leaves the reaction on message 2
  out, and both participants get the frame. The second call removes the row again.
\<close>

theorem reaction_toggle_witness:
  "fst (add_reaction 1 ''+1'' 2 example_world_reactions) =
     Inr (''added'', [(''+1'', 2, [1, 2]), (''ok'', 1, [2])]) \<and>
   reactions (database (snd (add_reaction 1 ''+1'' 2 example_world_reactions))) =
     [\<lparr>r_id = 1, r_message_id = 1, r_user_id = 1, r_emoji = ''+1''\<rparr>,
      \<lparr>r_id = 2, r_message_id = 2, r_user_id = 1, r_emoji = ''+1''\<rparr>,
      \<lparr>r_id = 3, r_message_id = 1, r_user_id = 2, r_emoji = ''ok''\<rparr>,
      \<lparr>r_id = 4, r_message_id = 1, r_user_id = 2, r_emoji = ''+1''\<rparr>] \<and>
   outbox (snd (add_reaction 1 ''+1'' 2 example_world_reactions)) =
     [(10, ReactionEvent ''added'' 1 1 2 ''+1'' [(''+1'', 2, [1, 2]), (''ok'', 1, [2])]),
      (20, ReactionEvent ''added'' 1 1 2 ''+1'' [(''+1'', 2, [1, 2]), (''ok'', 1, [2])])] \<and>
   \<not> reaction_exists (database (snd (add_reaction 1 ''+1'' 2
        (snd (add_reaction 1 ''+1'' 2 example_world_reactions))))) 1 2 ''+1'' \<and>
   fst (add_reaction 1 ''+1'' 2 (snd (add_reaction 1 ''+1'' 2 example_world_reactions))) =
     Inr (''removed'', [(''+1'', 1, [1]), (''ok'', 1, [2])])"
proof -
  let ?w = example_world_reactions
  let ?w1 = "snd (add_reaction 1 ''+1'' 2 ?w)"
  let ?w2 = "snd (add_reaction 1 ''+1'' 2 ?w1)"
  let ?m = "\<lparr>m_id = 1, m_content = Some ''hi'', m_is_edited = False,
            m_is_deleted = False, m_sender_id = 1, m_chat_id = 1,
            m_message_type = ''text'', m_reply_to_message_id = None,
            m_status = ''sent'', m_delivered_at = None, m_seen_at = None,
            m_created_at = 1\<rparr>"
  let ?c = "\<lparr>c_id = 1, c_user1_id = 1, c_user2_id = 2\<rparr>"
  let ?new = "\<lparr>r_id = 4, r_message_id = 1, r_user_id = 2, r_emoji = ''+1''\<rparr>"
  have table: "reactions (database ?w) =
     [\<lparr>r_id = 1, r_message_id = 1, r_user_id = 1, r_emoji = ''+1''\<rparr>,
      \<lparr>r_id = 2, r_message_id = 2, r_user_id = 1, r_emoji = ''+1''\<rparr>,
      \<lparr>r_id = 3, r_message_id = 1, r_user_id = 2, r_emoji = ''ok''\<rparr>]"
    by (simp add: example_defs)
  have msg: "first (\<lambda>m. m_id m = 1) (messages (database ?w)) = Some ?m"
    and chat: "first (\<lambda>c. c_id c = m_chat_id ?m) (chats (database ?w)) = Some ?c"
    by (simp_all add: example_defs)
  have once: "stored_once (database ?w) 1 2 ''+1''"
    and absent: "\<not> reaction_exists (database ?w) 1 2 ''+1''"
    by (simp_all add: table stored_once_def reaction_exists_def reaction_key_def)
  have next4: "next_id (map r_id (reactions (database ?w))) = 4"
    by (simp add: table next_id_def)
  have out: "deliveries ?w ev [1, 2] = [(10, ev), (20, ev)]" for ev
    by (simp add: example_defs deliveries_def delivery_def)
  have calls: "add_reaction 1 ''+1'' 2 v =
      (fst (add_reaction 1 ''+1'' 2 v), snd (add_reaction 1 ''+1'' 2 v))" for v
    by simp
  note first_toggle = reaction_toggle [OF msg chat once calls calls]
  from first_toggle absent
  have added1: "reactions (database ?w1) = reactions (database ?w) @
        [\<lparr>r_id = next_id (map r_id (reactions (database ?w))), r_message_id = 1,
          r_user_id = 2, r_emoji = ''+1''\<rparr>]"
    and rest1: "database ?w1 = (database ?w)\<lparr>reactions := reactions (database ?w1)\<rparr>"
    and present1: "reaction_exists (database ?w1) 1 2 ''+1''"
    and once1: "stored_once (database ?w1) 1 2 ''+1''"
    and gone2: "\<not> reaction_exists (database ?w2) 1 2 ''+1''"
    by blast+
  from added1 have table1: "reactions (database ?w1) = reactions (database ?w) @ [?new]"
    by (simp only: next4)
  have agg1: "emoji_aggregation (reactions (database ?w1)) 1 =
      [(''+1'', 2, [1, 2]), (''ok'', 1, [2])]"
    by (simp add: table1 table emoji_aggregation_def)
  from first_toggle absent agg1 out
  have answer1: "fst (add_reaction 1 ''+1'' 2 ?w) =
      Inr (''added'', [(''+1'', 2, [1, 2]), (''ok'', 1, [2])])"
    and frames1: "outbox ?w1 =
     [(10, ReactionEvent ''added'' 1 1 2 ''+1'' [(''+1'', 2, [1, 2]), (''ok'', 1, [2])]),
      (20, ReactionEvent ''added'' 1 1 2 ''+1'' [(''+1'', 2, [1, 2]), (''ok'', 1, [2])])]"
    by (simp_all add: example_defs)
  have msg1: "first (\<lambda>m. m_id m = 1) (messages (database ?w1)) = Some ?m"
    and chat1: "first (\<lambda>c. c_id c = m_chat_id ?m) (chats (database ?w1)) = Some ?c"
    by (subst rest1, simp add: example_defs)+
  note second_toggle = reaction_toggle [OF msg1 chat1 once1 calls calls]
  from second_toggle present1 obtain r where
    r: "r \<in> set (reactions (database ?w1))" "reaction_key r = (1, 2, ''+1'')"
      "reactions (database ?w2) = remove1 r (reactions (database ?w1))"
    by blast
  from r(1,2) have "r = ?new"
    by (auto simp: table1 table reaction_key_def)
  with r(3) have table2: "reactions (database ?w2) = reactions (database ?w)"
    by (simp add: table1 table)
  have agg2: "emoji_aggregation (reactions (database ?w2)) 1 = [(''+1'', 1, [1]), (''ok'', 1, [2])]"
    by (simp add: table2 table emoji_aggregation_def)
  from second_toggle present1 agg2
  have answer2: "fst (add_reaction 1 ''+1'' 2 ?w1) =
      Inr (''removed'', [(''+1'', 1, [1]), (''ok'', 1, [2])])"
    by simp
  from answer1 table1 table frames1 gone2 answer2 show ?thesis by simp
qed

end
